theory Spec2Isabelle
  imports Complex_Main "HOL-Library.Log_Nat"
begin

section \<open>Value model\<close>

text \<open>
  \<^verbatim>\<open>LogicValue\<close> (utils.ts) is the union \<^verbatim>\<open>boolean | Unknown | HighImpedance\<close>.
  The older components (ShiftBufferOut.ts, Clock) still call the third value
  \<^verbatim>\<open>Unset\<close> and the type \<^verbatim>\<open>TriState\<close>; it is the same symbol as \<open>Unknown\<close>.
\<close>

datatype LogicValue = Bit bool | Unknown | HighImpedance

text \<open>
  Modelled from the spec: utils.ts is not among the sources. \<^verbatim>\<open>isUnknown\<close> and
  \<^verbatim>\<open>isHighImpedance\<close> are the identity tests on the two non-boolean symbols, and
  \<^verbatim>\<open>FixedArrayFill(v, n)\<close> is the array of \<open>n\<close> copies of \<open>v\<close>.
\<close>

definition isUnknown :: "LogicValue \<Rightarrow> bool" where
  "isUnknown v = (v = Unknown)"

definition isHighImpedance :: "LogicValue \<Rightarrow> bool" where
  "isHighImpedance v = (v = HighImpedance)"

definition FixedArrayFill :: "'a \<Rightarrow> nat \<Rightarrow> 'a list" where
  "FixedArrayFill v n = replicate n v"

text \<open>
  Modelled from the spec: Component.ts, which holds \<^verbatim>\<open>ComponentBase\<close>, is not among
  the sources. \<^verbatim>\<open>inputValues(indices)\<close> reads the visible values of the input nodes
  at the given indices. A component's input side is the list of the visible values of
  its input nodes, in node order.
\<close>

definition inputValues :: "LogicValue list \<Rightarrow> nat list \<Rightarrow> LogicValue list" where
  "inputValues inputs indices = map (\<lambda>i. inputs ! i) indices"


section \<open>QuadTriState\<close>

text \<open>\<^verbatim>\<open>INPUT = { I: [0, 1, 2, 3], E: 4 }\<close>\<close>

definition QuadTriState_INPUT_I :: "nat list" where
  "QuadTriState_INPUT_I = [0, 1, 2, 3]"

definition QuadTriState_INPUT_E :: nat where
  "QuadTriState_INPUT_E = 4"

text \<open>
  \<^verbatim>\<open>QuadTriState.doRecalcValue\<close>: the argument is the list of the five input
  values. After the first test \<open>enable\<close> is a boolean, so \<^verbatim>\<open>!enable\<close> is its negation.
\<close>

definition QuadTriState_doRecalcValue :: "LogicValue list \<Rightarrow> LogicValue list" where
  "QuadTriState_doRecalcValue inputs =
     (let input = inputValues inputs QuadTriState_INPUT_I;
          enable = inputs ! QuadTriState_INPUT_E
      in if isUnknown enable \<or> isHighImpedance enable then FixedArrayFill Unknown 4
         else case enable of
                Bit b \<Rightarrow> if \<not> b then FixedArrayFill HighImpedance 4 else input
              | _ \<Rightarrow> FixedArrayFill Unknown 4)"


section \<open>Nodes\<close>

text \<open>
  Node.ts. A private field \<^verbatim>\<open>_x\<close> of the source is the record field \<open>f_x\<close>.
  Position, orientation and colour belong to the drawing code and are left out.
  Calls that leave the node (marking the parent component, handing a value to a wire,
  asking for a redraw) are returned as a list of effects, in call order.
\<close>

type_synonym Timestamp = rat

datatype Effect =
    SetNeedsRecalc
  | WirePropageNewValue nat LogicValue Timestamp
  | SetNeedsRedraw string

text \<open>
  The \<^verbatim>\<open>nodeSpec\<close> argument of the constructor. \<open>force\<close> is \<open>None\<close> when the key
  \<^verbatim>\<open>"force"\<close> is not in the object, \<open>initialValue\<close> is \<open>None\<close> when that key is missing
  or undefined; a present value is given after \<^verbatim>\<open>toLogicValue\<close>.
\<close>

record NodeSpec =
  spec_id :: nat
  force :: "LogicValue option"
  initialValue :: "LogicValue option"

record NodeBase =
  node_id :: nat
  f_isAlive :: bool
  f_value :: LogicValue
  f_initialValue :: "LogicValue option"
  f_forceValue :: "LogicValue option"

record NodeIn = NodeBase +
  f_incomingWire :: "nat option"
  f_prefersSpike :: bool

record NodeOut = NodeBase +
  f_outgoingWires :: "nat list"

text \<open>
  Modelled from the spec: Wire.ts is not among the sources. A wire is a directed edge
  from one output node, its \<^verbatim>\<open>startNode\<close>. A node knows a wire by reference; the model
  keeps the wire's identity in the node and passes the wire itself, with the present
  state of its start node, to the operation that reads it.
\<close>

record Wire =
  wire_id :: nat
  startNode :: NodeOut

definition NodeBase_constructor :: "NodeSpec \<Rightarrow> NodeBase" where
  "NodeBase_constructor nodeSpec =
     \<lparr> node_id = spec_id nodeSpec,
       f_isAlive = True,
       f_value = (case initialValue nodeSpec of Some v \<Rightarrow> v | None \<Rightarrow> Bit False),
       f_initialValue = initialValue nodeSpec,
       f_forceValue = force nodeSpec \<rparr>"

text \<open>The getter \<^verbatim>\<open>get value()\<close>.\<close>

definition NodeBase_value :: "'a NodeBase_scheme \<Rightarrow> LogicValue" where
  "NodeBase_value n = (case f_forceValue n of Some v \<Rightarrow> v | None \<Rightarrow> f_value n)"

definition propagateNewValueIfNecessary ::
  "('a NodeBase_scheme \<Rightarrow> LogicValue \<Rightarrow> Effect list) \<Rightarrow> LogicValue \<Rightarrow> 'a NodeBase_scheme
     \<Rightarrow> Effect list" where
  "propagateNewValueIfNecessary propagateNewValue oldVisibleValue n =
     (let newVisibleValue = NodeBase_value n
      in if newVisibleValue \<noteq> oldVisibleValue then propagateNewValue n newVisibleValue else [])"

text \<open>The setter \<^verbatim>\<open>set value(val)\<close>, over the subclass's \<^verbatim>\<open>propagateNewValue\<close>.\<close>

definition NodeBase_set_value ::
  "('a NodeBase_scheme \<Rightarrow> LogicValue \<Rightarrow> Effect list) \<Rightarrow> LogicValue \<Rightarrow> 'a NodeBase_scheme
     \<Rightarrow> 'a NodeBase_scheme \<times> Effect list" where
  "NodeBase_set_value propagateNewValue val n =
     (let oldVisibleValue = NodeBase_value n
      in if val \<noteq> f_value n
         then (let n' = n\<lparr>f_value := val\<rparr>
               in (n', propagateNewValueIfNecessary propagateNewValue oldVisibleValue n'))
         else (n, []))"

text \<open>
  The test of \<^verbatim>\<open>doDraw\<close> that shows the forced-value warning; \<open>modeFull\<close> is
  \<^verbatim>\<open>mode >= Mode.FULL\<close>.
\<close>

definition showForcedWarning :: "bool \<Rightarrow> 'a NodeBase_scheme \<Rightarrow> bool" where
  "showForcedWarning modeFull n =
     (modeFull \<and> \<not> isUnknown (f_value n) \<and> \<not> isUnknown (NodeBase_value n)
      \<and> f_value n \<noteq> NodeBase_value n)"

subsection \<open>Input nodes\<close>

text \<open>
  Modelled from the spec: the type \<^verbatim>\<open>InputNodeRepr\<close> (Component.ts) is not among the
  sources. Forced values belong to output nodes, so the saved form of an input node
  carries the identifier only (the getters \<^verbatim>\<open>forceValue\<close> and \<^verbatim>\<open>initialValue\<close> of
  \<^verbatim>\<open>NodeIn\<close> return undefined).
\<close>

definition InputNodeRepr :: "nat \<Rightarrow> NodeSpec" where
  "InputNodeRepr i = \<lparr> spec_id = i, force = None, initialValue = None \<rparr>"

definition NodeIn_constructor :: "NodeSpec \<Rightarrow> NodeIn" where
  "NodeIn_constructor nodeSpec =
     NodeBase.extend (NodeBase_constructor nodeSpec)
       (NodeIn.fields None False)"

definition NodeIn_propagateNewValue :: "NodeIn \<Rightarrow> LogicValue \<Rightarrow> Effect list" where
  "NodeIn_propagateNewValue n newValue = [SetNeedsRecalc]"

definition NodeIn_set_value :: "LogicValue \<Rightarrow> NodeIn \<Rightarrow> NodeIn \<times> Effect list" where
  "NodeIn_set_value = NodeBase_set_value NodeIn_propagateNewValue"

text \<open>The setter \<^verbatim>\<open>set incomingWire(wire)\<close>; \<open>None\<close> is \<^verbatim>\<open>null\<close>.\<close>

definition NodeIn_set_incomingWire :: "Wire option \<Rightarrow> NodeIn \<Rightarrow> NodeIn \<times> Effect list" where
  "NodeIn_set_incomingWire wire n =
     (let n1 = n\<lparr>f_incomingWire := map_option wire_id wire\<rparr>
      in case wire of
           None \<Rightarrow> NodeIn_set_value (Bit False) n1
         | Some w \<Rightarrow> NodeIn_set_value (NodeBase_value (startNode w)) n1)"

subsection \<open>Output nodes\<close>

definition NodeOut_constructor :: "NodeSpec \<Rightarrow> NodeOut" where
  "NodeOut_constructor nodeSpec =
     NodeBase.extend (NodeBase_constructor nodeSpec) (NodeOut.fields [])"

definition NodeOut_propagateNewValue :: "Timestamp \<Rightarrow> NodeOut \<Rightarrow> LogicValue \<Rightarrow> Effect list" where
  "NodeOut_propagateNewValue now n newValue =
     map (\<lambda>wire. WirePropageNewValue wire newValue now) (f_outgoingWires n)"

text \<open>\<open>now\<close> is what \<^verbatim>\<open>editor.timeline.adjustedTime()\<close> returns at the call.\<close>

definition NodeOut_set_value :: "Timestamp \<Rightarrow> LogicValue \<Rightarrow> NodeOut \<Rightarrow> NodeOut \<times> Effect list" where
  "NodeOut_set_value now = NodeBase_set_value (NodeOut_propagateNewValue now)"

text \<open>The setter \<^verbatim>\<open>set forceValue(newForceValue)\<close>; \<open>None\<close> is \<^verbatim>\<open>undefined\<close>.\<close>

definition NodeOut_set_forceValue ::
  "Timestamp \<Rightarrow> LogicValue option \<Rightarrow> NodeOut \<Rightarrow> NodeOut \<times> Effect list" where
  "NodeOut_set_forceValue now newForceValue n =
     (let oldVisibleValue = NodeBase_value n;
          n' = n\<lparr>f_forceValue := newForceValue\<rparr>
      in (n', propagateNewValueIfNecessary (NodeOut_propagateNewValue now) oldVisibleValue n'
              @ [SetNeedsRedraw ''changed forced output value'']))"

definition addOutgoingWire :: "nat \<Rightarrow> NodeOut \<Rightarrow> NodeOut" where
  "addOutgoingWire wire n = n\<lparr>f_outgoingWires := f_outgoingWires n @ [wire]\<rparr>"

subsection \<open>The life of an input node\<close>

text \<open>
  What happens to an input node after its construction: its incoming wire is set
  (to a wire or to \<^verbatim>\<open>null\<close>), or its incoming wire delivers a value through the value
  setter.
\<close>

datatype NodeInEvent = SetIncomingWire "Wire option" | WireDelivers LogicValue

fun NodeIn_step :: "NodeIn \<Rightarrow> NodeInEvent \<Rightarrow> NodeIn" where
  "NodeIn_step n (SetIncomingWire wire) = fst (NodeIn_set_incomingWire wire n)"
| "NodeIn_step n (WireDelivers v) = fst (NodeIn_set_value v n)"

definition NodeIn_run :: "nat \<Rightarrow> NodeInEvent list \<Rightarrow> NodeIn" where
  "NodeIn_run i events = foldl NodeIn_step (NodeIn_constructor (InputNodeRepr i)) events"

text \<open>
  The invariant in the spec's words, read off the history alone: the value last
  delivered by the incoming wire, \<open>None\<close> while there is no incoming wire. Attaching a
  wire delivers the visible value of its start node.
\<close>

fun lastDelivered_step :: "LogicValue option \<Rightarrow> NodeInEvent \<Rightarrow> LogicValue option" where
  "lastDelivered_step d (SetIncomingWire None) = None"
| "lastDelivered_step d (SetIncomingWire (Some w)) = Some (NodeBase_value (startNode w))"
| "lastDelivered_step d (WireDelivers v) = (case d of None \<Rightarrow> None | Some _ \<Rightarrow> Some v)"

definition lastDelivered :: "NodeInEvent list \<Rightarrow> LogicValue option" where
  "lastDelivered events = foldl lastDelivered_step None events"

text \<open>A history in which only an attached wire delivers.\<close>

fun deliveriesAttached :: "bool \<Rightarrow> NodeInEvent list \<Rightarrow> bool" where
  "deliveriesAttached attached [] = True"
| "deliveriesAttached attached (SetIncomingWire wire # es) = deliveriesAttached (wire \<noteq> None) es"
| "deliveriesAttached attached (WireDelivers v # es) = (attached \<and> deliveriesAttached attached es)"


text \<open>
  The invariant carried through a history: the node has no forced value, shows the
  expected value \<open>d\<close>, and has an incoming wire exactly when \<open>d\<close> is a delivered value.
\<close>

definition NodeIn_inv :: "NodeIn \<Rightarrow> LogicValue option \<Rightarrow> bool" where
  "NodeIn_inv n d =
     (f_forceValue n = None
      \<and> NodeBase_value n = (case d of None \<Rightarrow> Bit False | Some v \<Rightarrow> v)
      \<and> (f_incomingWire n = None) = (d = None))"

text \<open>A wire whose start node is forced to HighImpedance, for concrete runs.\<close>

definition exWire :: Wire where
  "exWire = \<lparr> wire_id = 7,
              startNode = NodeOut_constructor
                \<lparr> spec_id = 3, force = Some HighImpedance, initialValue = Some (Bit True) \<rparr> \<rparr>"


section \<open>Values as characters and numbers\<close>

text \<open>
  Modelled from the spec: utils.ts and drawutils.ts are not among the sources.
  \<^verbatim>\<open>toLogicValueRepr\<close> gives the persisted form of a value, one character once joined
  into a string (\<open>1\<close>, \<open>0\<close>, \<open>?\<close> for Unknown, \<open>Z\<close> for HighImpedance);
  \<^verbatim>\<open>toLogicValueFromChar\<close> reads it back, and reads any other character as Unknown.
  \<^verbatim>\<open>displayValuesFromArray(values, mostSignificantFirst)\<close> returns the values as a
  string of such characters, most significant bit first (the first value of the array is
  the least significant bit unless \<open>mostSignificantFirst\<close>), and the number the string
  denotes in base 2, or Unknown (here \<open>None\<close>) when a value is Unknown or HighImpedance.
\<close>

fun toLogicValueRepr :: "LogicValue \<Rightarrow> char" where
  "toLogicValueRepr (Bit True) = CHR ''1''"
| "toLogicValueRepr (Bit False) = CHR ''0''"
| "toLogicValueRepr Unknown = CHR ''?''"
| "toLogicValueRepr HighImpedance = CHR ''Z''"

definition toLogicValueFromChar :: "char \<Rightarrow> LogicValue" where
  "toLogicValueFromChar c =
     (if c = CHR ''1'' then Bit True
      else if c = CHR ''0'' then Bit False
      else if c = CHR ''?'' then Unknown
      else if c = CHR ''Z'' then HighImpedance
      else Unknown)"

definition parseInt2 :: "string \<Rightarrow> nat" where
  "parseInt2 s = foldl (\<lambda>acc c. 2 * acc + (if c = CHR ''1'' then 1 else 0)) 0 s"

definition displayValuesFromArray :: "LogicValue list \<Rightarrow> bool \<Rightarrow> string \<times> nat option" where
  "displayValuesFromArray values mostSignificantFirst =
     (let reprs = map toLogicValueRepr values;
          binaryStringRep = (if mostSignificantFirst then reprs else rev reprs);
          hasUnset = list_ex (\<lambda>v. isUnknown v \<or> isHighImpedance v) values
      in (binaryStringRep, if hasUnset then None else Some (parseInt2 binaryStringRep)))"


section \<open>ShiftBufferOut\<close>

text \<open>
  Modelled from the spec: FlipflopOrLatch.ts, which holds \<^verbatim>\<open>EdgeTrigger\<close> and
  \<^verbatim>\<open>Flipflop.isClockTrigger\<close>, is not among the sources. The trigger policy of the
  shift buffer is rising or falling. The spec: a transition is recognized only when
  both the previous and the current sampled values are definite (true or false) and
  they differ in the triggering direction.
\<close>

datatype EdgeTrigger = rising | falling

definition isClockTrigger :: "EdgeTrigger \<Rightarrow> LogicValue \<Rightarrow> LogicValue \<Rightarrow> bool" where
  "isClockTrigger trigger prevClock clock =
     ((trigger = rising \<and> prevClock = Bit False \<and> clock = Bit True)
      \<or> (trigger = falling \<and> prevClock = Bit True \<and> clock = Bit False))"

text \<open>\<^verbatim>\<open>const enum INPUT { Clock, Clear, Data }\<close>\<close>

definition INPUT_Clock :: nat where "INPUT_Clock = 0"
definition INPUT_Clear :: nat where "INPUT_Clear = 1"
definition INPUT_Data :: nat where "INPUT_Data = 2"

record ShiftBufferDecoderProps =
  decodeWidth :: int
  maxDisplayWidth :: int
  decode :: "nat \<Rightarrow> string"

record ShiftBufferOutState =
  incoming :: "LogicValue list"
  decoded :: "(string \<times> LogicValue list) list"

text \<open>
  The component: the visible values of its three input nodes, its value, and its
  private fields. \<open>sbo_decoder\<close> stands for \<^verbatim>\<open>ShiftBufferDecoders.propsOf(this._decodeAs)\<close>:
  the theorems hold for any decoder properties, so the table of decoders is not spelled
  out.
\<close>

record ShiftBufferOut =
  sbo_inputs :: "LogicValue list"
  sbo_value :: ShiftBufferOutState
  sbo_decoder :: ShiftBufferDecoderProps
  sbo_maxItems :: "int option"
  sbo_trigger :: EdgeTrigger
  sbo_lastClock :: LogicValue

text \<open>\<^verbatim>\<open>Array.prototype.splice(start, deleteCount)\<close> on integer arguments: what is left.\<close>

definition Array_splice :: "'a list \<Rightarrow> int \<Rightarrow> int \<Rightarrow> 'a list" where
  "Array_splice xs start deleteCount =
     (let len = int (length xs);
          s = (if start < 0 then max (len + start) 0 else min start len);
          dc = max 0 (min deleteCount (len - s))
      in take (nat s) xs @ drop (nat (s + dc)) xs)"

definition valueByAddingNewBit ::
  "LogicValue \<Rightarrow> ShiftBufferOutState \<Rightarrow> ShiftBufferDecoderProps \<Rightarrow> int \<Rightarrow> ShiftBufferOutState" where
  "valueByAddingNewBit newBit oldValue decoder maxItems =
     (let newIncoming = newBit # incoming oldValue
      in if int (length newIncoming) < decodeWidth decoder
         then \<lparr> incoming = newIncoming, decoded = decoded oldValue \<rparr>
         else
           let valAsInt = snd (displayValuesFromArray newIncoming True);
               decodedStr = (case valAsInt of None \<Rightarrow> ''?'' | Some v \<Rightarrow> decode decoder v);
               newDecoded = (decodedStr, newIncoming) # decoded oldValue;
               newDecoded' =
                 (if int (length newDecoded) > maxItems
                  then Array_splice newDecoded maxItems (int (length newDecoded) - maxItems)
                  else newDecoded)
           in \<lparr> incoming = [], decoded = newDecoded' \<rparr>)"

text \<open>
  \<^verbatim>\<open>ShiftBufferOut.doRecalcValue\<close> returns the new value and writes
  \<^verbatim>\<open>_lastClock\<close>; the model returns the value and the component after the call.
\<close>

definition ShiftBufferOut_doRecalcValue ::
  "ShiftBufferOut \<Rightarrow> ShiftBufferOutState \<times> ShiftBufferOut" where
  "ShiftBufferOut_doRecalcValue c =
     (if sbo_inputs c ! INPUT_Clear = Bit True
      then (\<lparr> incoming = [], decoded = [] \<rparr>, c)
      else
        let prevClock = sbo_lastClock c;
            clock = sbo_inputs c ! INPUT_Clock;
            c' = c\<lparr>sbo_lastClock := clock\<rparr>;
            oldValue = sbo_value c
        in if isClockTrigger (sbo_trigger c) prevClock clock
           then
             (let newBit = sbo_inputs c ! INPUT_Data;
                  decoder = sbo_decoder c;
                  maxItems = (case sbo_maxItems c of Some m \<Rightarrow> m | None \<Rightarrow> maxDisplayWidth decoder)
              in (valueByAddingNewBit newBit oldValue decoder maxItems, c'))
           else (oldValue, c'))"

text \<open>
  Modelled from the spec: the recalculation entry point of \<^verbatim>\<open>ComponentBase\<close>
  (Component.ts) is not among the sources. One recompute of the component after its
  input nodes took the values \<open>[clock, clear, data]\<close>: the value returned by
  \<^verbatim>\<open>doRecalcValue\<close> becomes the component's value (\<^verbatim>\<open>doSetValue\<close>).
\<close>

definition ShiftBufferOut_recompute :: "ShiftBufferOut \<Rightarrow> LogicValue list \<Rightarrow> ShiftBufferOut" where
  "ShiftBufferOut_recompute c ins =
     (let (v, c') = ShiftBufferOut_doRecalcValue (c\<lparr>sbo_inputs := ins\<rparr>)
      in c'\<lparr>sbo_value := v\<rparr>)"

text \<open>A definite value is a boolean.\<close>

fun isDefinite :: "LogicValue \<Rightarrow> bool" where
  "isDefinite (Bit b) = True"
| "isDefinite Unknown = False"
| "isDefinite HighImpedance = False"

text \<open>A component for concrete runs: hexadecimal digits of width 4, nothing stored.\<close>

definition exShiftBuffer :: ShiftBufferOut where
  "exShiftBuffer =
     \<lparr> sbo_inputs = [Bit False, Bit False, Bit False],
       sbo_value = \<lparr> incoming = [Bit True], decoded = [] \<rparr>,
       sbo_decoder = \<lparr> decodeWidth = 4, maxDisplayWidth = 16, decode = (\<lambda>v. ''x'') \<rparr>,
       sbo_maxItems = None,
       sbo_trigger = rising,
       sbo_lastClock = Unknown \<rparr>"


text \<open>
  The spec's words for a recognized transition: both samples definite, and differing
  in the direction of the trigger.
\<close>

definition definiteTransition :: "EdgeTrigger \<Rightarrow> LogicValue \<Rightarrow> LogicValue \<Rightarrow> bool" where
  "definiteTransition trigger prevClock clock =
     (isDefinite prevClock \<and> isDefinite clock \<and> prevClock \<noteq> clock
      \<and> (case trigger of rising \<Rightarrow> clock = Bit True | falling \<Rightarrow> clock = Bit False))"


section \<open>JavaScript numbers\<close>

text \<open>
  A JavaScript number is an IEEE 754 double: a finite value (a rational here), an
  infinity, or \<^verbatim>\<open>NaN\<close>. The sign of zero is not kept; \<^verbatim>\<open>currentClockValue\<close> divides
  by the literal 100 only and compares, so it cannot tell the two zeros apart.
\<close>

datatype jsnum = Fin rat | PosInf | NegInf | NaN

definition pow2 :: "int \<Rightarrow> rat" where
  "pow2 e = (if 0 \<le> e then 2 ^ nat e else inverse (2 ^ nat (- e)))"

text \<open>For a positive \<open>x\<close>, the exponent \<open>e\<close> with \<open>2 ^ e \<le> x < 2 ^ (e + 1)\<close>.\<close>

definition floor_log2 :: "rat \<Rightarrow> int" where
  "floor_log2 x = (if 1 \<le> x then bitlen \<lfloor>x\<rfloor> - 1 else - bitlen (\<lceil>1 / x\<rceil> - 1))"

definition round_half_even :: "rat \<Rightarrow> int" where
  "round_half_even x =
     (let f = \<lfloor>x\<rfloor>; d = x - of_int f
      in if d < 1 / 2 then f else if 1 / 2 < d then f + 1 else if even f then f else f + 1)"

text \<open>
  The double nearest to a rational, ties to the even significand: 53 significant bits,
  the least exponent -1022 (below it the spacing stays \<open>2 ^ -1074\<close>), and an infinity
  when the rounded value reaches \<open>2 ^ 1024\<close>.
\<close>

definition round_double :: "rat \<Rightarrow> jsnum" where
  "round_double x =
     (if x = 0 then Fin 0
      else
        let e = max (floor_log2 \<bar>x\<bar>) (- 1022);
            ulp = pow2 (e - 52);
            y = of_int (round_half_even (x / ulp)) * ulp
        in if y \<noteq> 0 \<and> 1024 \<le> floor_log2 \<bar>y\<bar> then (if 0 < x then PosInf else NegInf)
           else Fin y)"

fun js_neg :: "jsnum \<Rightarrow> jsnum" where
  "js_neg (Fin a) = Fin (- a)"
| "js_neg PosInf = NegInf"
| "js_neg NegInf = PosInf"
| "js_neg NaN = NaN"

fun js_add :: "jsnum \<Rightarrow> jsnum \<Rightarrow> jsnum" where
  "js_add (Fin a) (Fin b) = round_double (a + b)"
| "js_add NaN y = NaN"
| "js_add x NaN = NaN"
| "js_add PosInf NegInf = NaN"
| "js_add NegInf PosInf = NaN"
| "js_add PosInf y = PosInf"
| "js_add NegInf y = NegInf"
| "js_add x PosInf = PosInf"
| "js_add x NegInf = NegInf"

definition js_sub :: "jsnum \<Rightarrow> jsnum \<Rightarrow> jsnum" where
  "js_sub x y = js_add x (js_neg y)"

text \<open>The sign of a number that is not \<^verbatim>\<open>NaN\<close>: -1, 0 or 1.\<close>

fun js_sign :: "jsnum \<Rightarrow> int" where
  "js_sign (Fin a) = (if a < 0 then - 1 else if a = 0 then 0 else 1)"
| "js_sign PosInf = 1"
| "js_sign NegInf = - 1"
| "js_sign NaN = 0"

fun js_mul :: "jsnum \<Rightarrow> jsnum \<Rightarrow> jsnum" where
  "js_mul (Fin a) (Fin b) = round_double (a * b)"
| "js_mul NaN y = NaN"
| "js_mul x NaN = NaN"
| "js_mul x y =
     (if js_sign x * js_sign y = 0 then NaN
      else if 0 < js_sign x * js_sign y then PosInf else NegInf)"

text \<open>Division; a zero divisor is taken as positive zero.\<close>

fun js_div :: "jsnum \<Rightarrow> jsnum \<Rightarrow> jsnum" where
  "js_div (Fin a) (Fin b) =
     (if b = 0 then (if a = 0 then NaN else if 0 < a then PosInf else NegInf)
      else round_double (a / b))"
| "js_div NaN y = NaN"
| "js_div x NaN = NaN"
| "js_div (Fin a) y = Fin 0"
| "js_div x (Fin b) = (if 0 < js_sign x * (if b < 0 then - 1 else 1) then PosInf else NegInf)"
| "js_div x y = NaN"

text \<open>
  The remainder \<^verbatim>\<open>a % b\<close>: \<^verbatim>\<open>NaN\<close> for a zero divisor or an infinite dividend, the
  dividend for an infinite divisor, and otherwise \<open>a - b * q\<close> with \<open>q\<close> the quotient
  \<open>a / b\<close> truncated towards zero. It has the sign of \<open>a\<close> and is a double without
  rounding.
\<close>

fun js_rem :: "jsnum \<Rightarrow> jsnum \<Rightarrow> jsnum" where
  "js_rem (Fin a) (Fin b) =
     (if b = 0 then NaN
      else Fin (a - b * of_int (if a / b < 0 then \<lceil>a / b\<rceil> else \<lfloor>a / b\<rfloor>)))"
| "js_rem NaN y = NaN"
| "js_rem x NaN = NaN"
| "js_rem (Fin a) y = Fin a"
| "js_rem x y = NaN"

fun js_lt :: "jsnum \<Rightarrow> jsnum \<Rightarrow> bool" where
  "js_lt (Fin a) (Fin b) = (a < b)"
| "js_lt NaN y = False"
| "js_lt x NaN = False"
| "js_lt x NegInf = False"
| "js_lt PosInf y = False"
| "js_lt x y = True"


section \<open>Clock\<close>

text \<open>
  Modelled from the spec: \<^verbatim>\<open>ComponentState\<close> (Component.ts) is not among the sources.
  A component is unplaced, then placed and live, then dead.
\<close>

datatype ComponentState = SPAWNING | SPAWNED | DEAD

record Clock =
  f_period :: jsnum
  f_dutycycle :: jsnum
  f_phase :: jsnum
  clk_value :: LogicValue
  clk_state :: ComponentState

text \<open>\<^verbatim>\<open>Clock.currentClockValue(time)\<close> returns \<^verbatim>\<open>[value, nextTick]\<close>.\<close>

definition currentClockValue :: "Clock \<Rightarrow> jsnum \<Rightarrow> bool \<times> jsnum" where
  "currentClockValue c time =
     (let myTime = js_sub time (f_phase c);
          timeOverPeriod0 = js_rem myTime (f_period c);
          timeOverPeriod =
            (if js_lt timeOverPeriod0 (Fin 0) then js_add timeOverPeriod0 (f_period c)
             else timeOverPeriod0);
          onDuration = js_div (js_mul (f_period c) (f_dutycycle c)) (Fin 100);
          offDuration = js_sub (f_period c) onDuration;
          value = js_lt timeOverPeriod onDuration;
          timeOverLastTick =
            (if value then timeOverPeriod else js_sub timeOverPeriod onDuration);
          lastTick = js_sub time timeOverLastTick;
          nextTick = js_add lastTick (if value then onDuration else offDuration)
      in (value, nextTick))"

text \<open>
  Modelled from the spec: Timeline.ts is not among the sources. The timeline is the
  list of the events scheduled and not yet run, in insertion order;
  \<^verbatim>\<open>Timeline.scheduleAt(time, description, callback)\<close> enqueues one. The callback a
  clock passes is always its own \<^verbatim>\<open>tickCallback\<close>, so an event keeps the time and the
  description.
\<close>

type_synonym Timeline = "(jsnum \<times> string) list"

definition scheduleAt :: "jsnum \<Rightarrow> string \<Rightarrow> Timeline \<Rightarrow> Timeline" where
  "scheduleAt time description timeline = timeline @ [(time, description)]"

text \<open>
  Modelled from the spec: \<^verbatim>\<open>ComponentBase.doSetValue\<close> (Component.ts) is not among the
  sources. It stores the component's value.
\<close>

definition Clock_doSetValue :: "LogicValue \<Rightarrow> Clock \<Rightarrow> Clock" where
  "Clock_doSetValue v c = c\<lparr>clk_value := v\<rparr>"

text \<open>\<^verbatim>\<open>Clock.tickCallback(theoreticalTime)\<close>, on the clock and the timeline.\<close>

definition tickCallback :: "jsnum \<Rightarrow> Clock \<times> Timeline \<Rightarrow> Clock \<times> Timeline" where
  "tickCallback theoreticalTime ct =
     (let c = fst ct; timeline = snd ct;
          (value, nextTick) = currentClockValue c theoreticalTime;
          c' = Clock_doSetValue (Bit value) c
      in if clk_state c' \<noteq> DEAD
         then (c', scheduleAt nextTick
                     (''next tick for clock value '' @ (if \<not> value then ''true'' else ''false''))
                     timeline)
         else (c', timeline))"




text \<open>The clock of the spec's example: period 1000, duty cycle 50, phase 0.\<close>

definition exClock :: Clock where
  "exClock = \<lparr> f_period = Fin 1000, f_dutycycle = Fin 50, f_phase = Fin 0,
               clk_value = Bit False, clk_state = SPAWNED \<rparr>"




section \<open>InputByte\<close>

text \<open>
  The saved form of an InputByte, as far as its value goes: the optional string
  \<^verbatim>\<open>val\<close>. \<open>None\<close> for the whole record is \<^verbatim>\<open>null\<close>, \<open>None\<close> for the field is
  \<^verbatim>\<open>undefined\<close>.
\<close>

record InputByteRepr =
  val :: "string option"

text \<open>
  The loop of \<^verbatim>\<open>savedStateFrom\<close>: \<open>i\<close> runs from 0 to 7 and the loop is left early
  when the string is used up.
\<close>

function savedStateFrom_loop :: "string \<Rightarrow> nat \<Rightarrow> LogicValue list \<Rightarrow> LogicValue list" where
  "savedStateFrom_loop rep i inputs =
     (if i < 8
      then (let lastIndex = int (length rep) - 1;
                index = lastIndex - int i
            in if index < 0 then inputs
               else savedStateFrom_loop rep (i + 1)
                      (inputs[i := toLogicValueFromChar (rep ! nat index)]))
      else inputs)"
  by pat_completeness auto
termination
  by (relation "measure (\<lambda>(rep, i, inputs). 8 - i)") auto

declare savedStateFrom_loop.simps [simp del]

definition savedStateFrom :: "InputByteRepr option \<Rightarrow> LogicValue list" where
  "savedStateFrom savedData =
     (let inputs = FixedArrayFill (Bit False) 8
      in case savedData of
           None \<Rightarrow> inputs
         | Some d \<Rightarrow> (case val d of
                        None \<Rightarrow> inputs
                      | Some rep \<Rightarrow> savedStateFrom_loop rep 0 inputs))"

text \<open>
  \<^verbatim>\<open>contentRepr\<close>. Reading an array past its end gives \<^verbatim>\<open>undefined\<close>, which is not
  \<^verbatim>\<open>false\<close>.
\<close>

definition contentRepr :: "LogicValue list \<Rightarrow> string option" where
  "contentRepr value =
     (let nontrivial = list_ex (\<lambda>i. \<not> (i < length value \<and> value ! i = Bit False)) [0..<8]
      in if \<not> nontrivial then None
         else Some (rev (map toLogicValueRepr value)))"

text \<open>\<^verbatim>\<open>toJSON\<close>, as far as the value goes.\<close>

definition InputByte_toJSON :: "LogicValue list \<Rightarrow> InputByteRepr" where
  "InputByte_toJSON value = \<lparr> val = contentRepr value \<rparr>"


section \<open>DecoderBCD4\<close>

definition DecoderBCD4_INPUT_I :: "nat list" where
  "DecoderBCD4_INPUT_I = [0, 1, 2, 3]"

text \<open>
  \<^verbatim>\<open>DecoderBCD4.doRecalcValue\<close>, on the list of the four input values. The rows of
  the \<^verbatim>\<open>switch\<close> are kept in their order.
\<close>

definition DecoderBCD4_doRecalcValue :: "LogicValue list \<Rightarrow> LogicValue list" where
  "DecoderBCD4_doRecalcValue inputs =
     (let input = inputValues inputs DecoderBCD4_INPUT_I;
          value = snd (displayValuesFromArray input False)
      in case value of
           None \<Rightarrow> FixedArrayFill Unknown 5
         | Some v \<Rightarrow>
             if v = 0 then [Bit False, Bit False, Bit False, Bit False, Bit False]
             else if v = 1 then [Bit False, Bit False, Bit False, Bit False, Bit True]
             else if v = 2 then [Bit False, Bit False, Bit False, Bit True, Bit False]
             else if v = 3 then [Bit False, Bit False, Bit False, Bit True, Bit True]
             else if v = 4 then [Bit False, Bit False, Bit True, Bit False, Bit False]
             else if v = 5 then [Bit False, Bit False, Bit True, Bit False, Bit True]
             else if v = 6 then [Bit False, Bit False, Bit True, Bit True, Bit False]
             else if v = 7 then [Bit False, Bit False, Bit True, Bit True, Bit True]
             else if v = 8 then [Bit False, Bit True, Bit False, Bit False, Bit False]
             else if v = 9 then [Bit False, Bit True, Bit False, Bit False, Bit True]
             else if v = 10 then [Bit True, Bit False, Bit False, Bit False, Bit False]
             else if v = 11 then [Bit True, Bit False, Bit False, Bit False, Bit True]
             else if v = 12 then [Bit True, Bit False, Bit False, Bit True, Bit False]
             else if v = 13 then [Bit True, Bit False, Bit False, Bit True, Bit True]
             else if v = 14 then [Bit True, Bit False, Bit True, Bit False, Bit False]
             else if v = 15 then [Bit True, Bit False, Bit True, Bit False, Bit True]
             else FixedArrayFill Unknown 5)"

text \<open>
  \<^verbatim>\<open>DecoderBCD4.propagateValue\<close>: output \<open>i\<close> of the five is written
  \<^verbatim>\<open>newValue[5 - i - 1]\<close> through the value setter of its node. The result is the
  output nodes after the writes, each with the effects of its write.
\<close>

definition DecoderBCD4_propagateValue ::
  "Timestamp \<Rightarrow> LogicValue list \<Rightarrow> NodeOut list \<Rightarrow> (NodeOut \<times> Effect list) list" where
  "DecoderBCD4_propagateValue now newValue outputs =
     map (\<lambda>(i, output). NodeOut_set_value now (newValue ! (5 - i - 1)) output)
       (enumerate 0 outputs)"

text \<open>The computed values the five output nodes Z0 to Z4 hold after a recompute.\<close>

definition DecoderBCD4_outputs :: "Timestamp \<Rightarrow> LogicValue list \<Rightarrow> NodeOut list \<Rightarrow> LogicValue list" where
  "DecoderBCD4_outputs now inputs outputs =
     map (\<lambda>r. f_value (fst r))
       (DecoderBCD4_propagateValue now (DecoderBCD4_doRecalcValue inputs) outputs)"


section \<open>Theorems\<close>

subsection \<open>QuadTriState\<close>

text \<open>
  C3. For every four data-input values \<open>a, b, c, d\<close>: with Enable Unknown or
  HighImpedance the recomputed value is Unknown on all four outputs; with Enable false
  it is HighImpedance on all four; with Enable true it is the four data inputs as they
  are, whatever they are (a HighImpedance or Unknown data input stays what it is).
\<close>

theorem QuadTriState_doRecalcValue_cases:
  "QuadTriState_doRecalcValue [a, b, c, d, Unknown] = [Unknown, Unknown, Unknown, Unknown]
   \<and> QuadTriState_doRecalcValue [a, b, c, d, HighImpedance] = [Unknown, Unknown, Unknown, Unknown]
   \<and> QuadTriState_doRecalcValue [a, b, c, d, Bit False]
       = [HighImpedance, HighImpedance, HighImpedance, HighImpedance]
   \<and> QuadTriState_doRecalcValue [a, b, c, d, Bit True] = [a, b, c, d]"
  by (simp add: QuadTriState_doRecalcValue_def inputValues_def QuadTriState_INPUT_I_def
      QuadTriState_INPUT_E_def isUnknown_def isHighImpedance_def FixedArrayFill_def
      numeral_eq_Suc)

subsection \<open>Nodes\<close>

lemmas node_defs = NodeBase_value_def NodeBase_set_value_def propagateNewValueIfNecessary_def
  NodeOut_set_value_def NodeOut_set_forceValue_def NodeOut_propagateNewValue_def
  NodeIn_set_value_def NodeIn_propagateNewValue_def NodeIn_set_incomingWire_def

text \<open>
  C5. The visible value of an output node is its forced value when there is one and the
  computed value otherwise. After forcing a node whose computed value is false to true
  it reads true; while a value is forced, a recompute that writes any computed value
  leaves the node reading the forced value; after the forced value is cleared the node
  reads its computed value, and the value written by the next recompute.
\<close>

theorem NodeOut_forced_value_visible:
  "NodeBase_value (n::NodeOut) = (case f_forceValue n of Some v \<Rightarrow> v | None \<Rightarrow> f_value n)
   \<and> NodeBase_value (fst (NodeOut_set_forceValue now (Some (Bit True)) (n\<lparr>f_value := Bit False\<rparr>)))
       = Bit True
   \<and> NodeBase_value (fst (NodeOut_set_value now' computed
        (fst (NodeOut_set_forceValue now (Some forced) n)))) = forced
   \<and> NodeBase_value (fst (NodeOut_set_forceValue now None n)) = f_value n
   \<and> NodeBase_value (fst (NodeOut_set_value now' computed
        (fst (NodeOut_set_forceValue now None n)))) = computed"
  by (simp add: node_defs Let_def)

text \<open>
  C8. On an output node with a forced value, the value setter changes the stored
  computed value and nothing else: the node is the same but for \<open>f_value\<close>, no call
  reaches an outgoing wire (the effect list is empty), the visible value is still the
  forced one, and the stored computed value is the one the forced-value warning
  compares with the visible value.
\<close>

theorem NodeOut_set_value_while_forced:
  "NodeOut_set_value now newVal (n\<lparr>f_forceValue := Some forced\<rparr>)
     = (n\<lparr>f_forceValue := Some forced, f_value := newVal\<rparr>, [])
   \<and> NodeBase_value (fst (NodeOut_set_value now newVal (n\<lparr>f_forceValue := Some forced\<rparr>)))
       = NodeBase_value (n\<lparr>f_forceValue := Some forced\<rparr>)
   \<and> f_value (fst (NodeOut_set_value now newVal (n\<lparr>f_forceValue := Some forced\<rparr>))) = newVal
   \<and> showForcedWarning True (fst (NodeOut_set_value now newVal (n\<lparr>f_forceValue := Some forced\<rparr>)))
       = (newVal \<noteq> Unknown \<and> forced \<noteq> Unknown \<and> newVal \<noteq> forced)"
  by (auto simp add: node_defs Let_def showForcedWarning_def isUnknown_def)

lemma NodeIn_inv_step:
  assumes "NodeIn_inv n d" and "deliveriesAttached (d \<noteq> None) [e]"
  shows "NodeIn_inv (NodeIn_step n e) (lastDelivered_step d e)"
proof (cases e)
  case (SetIncomingWire wire)
  with assms(1) show ?thesis
    by (cases wire) (auto simp add: NodeIn_inv_def node_defs Let_def)
next
  case (WireDelivers v)
  with assms show ?thesis
    by (auto simp add: NodeIn_inv_def node_defs Let_def)
qed

lemma deliveriesAttached_Cons:
  "deliveriesAttached (d \<noteq> None) (e # es)
     = (deliveriesAttached (d \<noteq> None) [e]
        \<and> deliveriesAttached (lastDelivered_step d e \<noteq> None) es)"
  by (cases e; cases d) (auto split: option.splits; (case_tac x1; simp))+

lemma NodeIn_inv_foldl:
  "NodeIn_inv n d \<Longrightarrow> deliveriesAttached (d \<noteq> None) es
     \<Longrightarrow> NodeIn_inv (foldl NodeIn_step n es) (foldl lastDelivered_step d es)"
proof (induction es arbitrary: n d)
  case Nil
  then show ?case by simp
next
  case (Cons e es)
  from Cons.prems(2) have a: "deliveriesAttached (d \<noteq> None) [e]"
    and b: "deliveriesAttached (lastDelivered_step d e \<noteq> None) es"
    by (simp_all only: deliveriesAttached_Cons [of d e es])
  from NodeIn_inv_step [OF Cons.prems(1) a] b show ?case
    by (simp add: Cons.IH)
qed

lemma NodeIn_inv_init: "NodeIn_inv (NodeIn_constructor (InputNodeRepr i)) None"
  by (simp add: NodeIn_inv_def NodeIn_constructor_def NodeBase_constructor_def InputNodeRepr_def
      NodeBase.extend_def NodeBase_value_def NodeIn.fields_def)

text \<open>
  C6. After any history of an input node in which only an attached wire delivers, the
  node's visible value is the value last delivered by its incoming wire, or false when
  it has no incoming wire. In such a state, setting the incoming wire to \<^verbatim>\<open>null\<close>
  makes the visible value false, and setting it to a wire makes the visible value the
  present visible value of the wire's start node.
\<close>

theorem NodeIn_visible_value_invariant:
  "deliveriesAttached False events \<Longrightarrow>
     NodeBase_value (NodeIn_run i events)
       = (case lastDelivered events of None \<Rightarrow> Bit False | Some v \<Rightarrow> v)
     \<and> (f_incomingWire (NodeIn_run i events) = None) = (lastDelivered events = None)
     \<and> NodeBase_value (NodeIn_step (NodeIn_run i events) (SetIncomingWire None)) = Bit False
     \<and> NodeBase_value (NodeIn_step (NodeIn_run i events) (SetIncomingWire (Some w)))
         = NodeBase_value (startNode w)"
proof -
  assume wf: "deliveriesAttached False events"
  have inv: "NodeIn_inv (NodeIn_run i events) (lastDelivered events)"
    unfolding NodeIn_run_def lastDelivered_def
    using NodeIn_inv_foldl [OF NodeIn_inv_init, of events i] wf by simp
  have nf: "f_forceValue (NodeIn_run i events) = None"
    using inv by (simp add: NodeIn_inv_def)
  show ?thesis using inv nf
    by (simp add: NodeIn_inv_def node_defs Let_def)
qed

theorem NodeIn_visible_value_invariant_witness:
  "deliveriesAttached False [SetIncomingWire (Some exWire), WireDelivers Unknown]
   \<and> NodeBase_value (NodeIn_run 0 [SetIncomingWire (Some exWire), WireDelivers Unknown]) = Unknown
   \<and> NodeBase_value (NodeIn_run 0 [SetIncomingWire (Some exWire)]) = HighImpedance
   \<and> NodeBase_value
        (NodeIn_run 0 [SetIncomingWire (Some exWire), WireDelivers Unknown, SetIncomingWire None])
       = Bit False"
proof -
  have wf: "deliveriesAttached False [SetIncomingWire (Some exWire), WireDelivers Unknown]"
    by simp
  have wf1: "deliveriesAttached False [SetIncomingWire (Some exWire)]"
    by simp
  have wf2: "deliveriesAttached False
      [SetIncomingWire (Some exWire), WireDelivers Unknown, SetIncomingWire None]"
    by simp
  show ?thesis
    using wf NodeIn_visible_value_invariant [OF wf, of 0 exWire]
      NodeIn_visible_value_invariant [OF wf1, of 0 exWire]
      NodeIn_visible_value_invariant [OF wf2, of 0 exWire]
    by (simp add: lastDelivered_def exWire_def NodeOut_constructor_def NodeBase_constructor_def
        NodeBase_value_def NodeBase.extend_def NodeOut.fields_def)
qed

subsection \<open>ShiftBufferOut\<close>

lemmas sbo_defs = ShiftBufferOut_doRecalcValue_def ShiftBufferOut_recompute_def
  INPUT_Clock_def INPUT_Clear_def INPUT_Data_def

text \<open>
  C1. A clock trigger is recognized only on a transition between two definite samples
  that differ in the direction of the trigger. A recompute of the shift buffer whose
  Clear input is not true, and whose stored last clock value and present clock input
  are not such a transition, returns the value held before. With a rising trigger and
  Clear never true, the clock samples false, Unknown, true leave the held value as it
  was at each of the three recomputes, whatever the data input: neither the step to
  Unknown nor the step from Unknown to true triggers.
\<close>

theorem ShiftBufferOut_edge_trigger:
  "(isClockTrigger trigger prevClock clock \<longrightarrow> definiteTransition trigger prevClock clock)
   \<and> (sbo_inputs c ! INPUT_Clear \<noteq> Bit True
        \<and> \<not> definiteTransition (sbo_trigger c) (sbo_lastClock c) (sbo_inputs c ! INPUT_Clock)
      \<longrightarrow> fst (ShiftBufferOut_doRecalcValue c) = sbo_value c)
   \<and> (sbo_trigger c = rising \<and> clear1 \<noteq> Bit True \<and> clear2 \<noteq> Bit True \<and> clear3 \<noteq> Bit True
      \<longrightarrow> (let c1 = ShiftBufferOut_recompute c [Bit False, clear1, data1];
               c2 = ShiftBufferOut_recompute c1 [Unknown, clear2, data2];
               c3 = ShiftBufferOut_recompute c2 [Bit True, clear3, data3]
           in sbo_value c1 = sbo_value c \<and> sbo_value c2 = sbo_value c
              \<and> sbo_value c3 = sbo_value c \<and> sbo_lastClock c3 = Bit True))"
  apply (intro conjI impI)
  subgoal by (auto simp add: isClockTrigger_def definiteTransition_def)
  subgoal by (cases "sbo_trigger c")
      (auto simp add: sbo_defs isClockTrigger_def definiteTransition_def Let_def)
  subgoal by (simp add: sbo_defs isClockTrigger_def Let_def)
  done

theorem ShiftBufferOut_edge_trigger_witness:
  "isClockTrigger rising (Bit False) (Bit True)
   \<and> definiteTransition rising (Bit False) (Bit True)
   \<and> \<not> definiteTransition (sbo_trigger exShiftBuffer) (sbo_lastClock exShiftBuffer)
         (sbo_inputs exShiftBuffer ! INPUT_Clock)
   \<and> fst (ShiftBufferOut_doRecalcValue exShiftBuffer) = sbo_value exShiftBuffer
   \<and> sbo_value (ShiftBufferOut_recompute (ShiftBufferOut_recompute (ShiftBufferOut_recompute
        exShiftBuffer [Bit False, Bit False, Bit True]) [Unknown, Bit False, Bit True])
        [Bit True, Bit False, Bit True]) = \<lparr> incoming = [Bit True], decoded = [] \<rparr>
   \<and> sbo_value (ShiftBufferOut_recompute (ShiftBufferOut_recompute
        exShiftBuffer [Bit False, Bit False, Bit True])
        [Bit True, Bit False, Bit True]) = \<lparr> incoming = [Bit True, Bit True], decoded = [] \<rparr>"
  using ShiftBufferOut_edge_trigger [of rising "Bit False" "Bit True" exShiftBuffer
      "Bit False" "Bit False" "Bit False" "Bit True" "Bit True" "Bit True"]
  by (simp add: exShiftBuffer_def sbo_defs isClockTrigger_def definiteTransition_def Let_def
      valueByAddingNewBit_def)

text \<open>
  C4. When the Clear input is true, the recompute of the shift buffer returns the empty
  state, whatever the clock input, the stored last clock value and the trigger are.
\<close>

theorem ShiftBufferOut_clear_resets:
  "sbo_inputs c ! INPUT_Clear = Bit True \<Longrightarrow>
     fst (ShiftBufferOut_doRecalcValue c) = \<lparr> incoming = [], decoded = [] \<rparr>"
  by (simp add: ShiftBufferOut_doRecalcValue_def)

theorem ShiftBufferOut_clear_resets_witness:
  "sbo_inputs (exShiftBuffer\<lparr>sbo_inputs := [Bit True, Bit True, Bit True],
       sbo_lastClock := Bit False\<rparr>) ! INPUT_Clear = Bit True
   \<and> fst (ShiftBufferOut_doRecalcValue (exShiftBuffer\<lparr>sbo_inputs := [Bit True, Bit True, Bit True],
       sbo_lastClock := Bit False\<rparr>)) = \<lparr> incoming = [], decoded = [] \<rparr>
   \<and> sbo_value (ShiftBufferOut_recompute (exShiftBuffer\<lparr>sbo_lastClock := Bit False\<rparr>)
        [Bit True, Bit False, Bit True]) = \<lparr> incoming = [Bit True, Bit True], decoded = [] \<rparr>"
proof -
  have h: "sbo_inputs (exShiftBuffer\<lparr>sbo_inputs := [Bit True, Bit True, Bit True],
       sbo_lastClock := Bit False\<rparr>) ! INPUT_Clear = Bit True"
    by (simp add: INPUT_Clear_def)
  show ?thesis
    using h ShiftBufferOut_clear_resets [OF h]
    by (simp add: exShiftBuffer_def sbo_defs isClockTrigger_def Let_def valueByAddingNewBit_def
        split_def)
qed

subsection \<open>Clock\<close>




















text \<open>A clock that is not dead enqueues one event, at the next tick.\<close>

lemma tickCallback_alive:
  "clk_state c \<noteq> DEAD \<Longrightarrow>
     snd (tickCallback t (c, timeline))
       = timeline @ [(snd (currentClockValue c t),
            ''next tick for clock value ''
              @ (if fst (currentClockValue c t) then ''false'' else ''true''))]"
  by (simp add: tickCallback_def Clock_doSetValue_def scheduleAt_def Let_def split_def)

text \<open>
  C7. The tick callback of a dead clock sets the clock's value and leaves the timeline
  as it is: it enqueues no next tick.
\<close>

theorem tickCallback_dead:
  "clk_state c = DEAD \<Longrightarrow>
     tickCallback t (c, timeline) = (c\<lparr>clk_value := Bit (fst (currentClockValue c t))\<rparr>, timeline)"
  by (simp add: tickCallback_def Clock_doSetValue_def Let_def split_def)

theorem tickCallback_dead_witness:
  "clk_state (exClock\<lparr>clk_state := DEAD\<rparr>) = DEAD
   \<and> tickCallback (Fin 2100) (exClock\<lparr>clk_state := DEAD\<rparr>, [(Fin 2000, ''pending'')])
       = (exClock\<lparr>clk_state := DEAD, clk_value := Bit True\<rparr>, [(Fin 2000, ''pending'')])
   \<and> snd (tickCallback (Fin 2100) (exClock, [(Fin 2000, ''pending'')]))
       = [(Fin 2000, ''pending''), (Fin 2500, ''next tick for clock value false'')]"
proof -
  have h: "clk_state (exClock\<lparr>clk_state := DEAD\<rparr>) = DEAD" by simp
  have a: "currentClockValue (exClock\<lparr>clk_state := DEAD\<rparr>) (Fin 2100) = (True, Fin 2500)"
    by code_simp
  have b: "currentClockValue exClock (Fin 2100) = (True, Fin 2500)"
    by code_simp
  have l: "clk_state exClock \<noteq> DEAD" by (simp add: exClock_def)
  show ?thesis
    using tickCallback_dead [OF h, of "Fin 2100" "[(Fin 2000, ''pending'')]"] a b
      tickCallback_alive [OF l, of "Fin 2100" "[(Fin 2000, ''pending'')]"]
    by (simp add: exClock_def)
qed

subsection \<open>InputByte\<close>

lemma toLogicValueFromChar_toLogicValueRepr: "toLogicValueFromChar (toLogicValueRepr v) = v"
  by (cases v rule: toLogicValueRepr.cases) (simp_all add: toLogicValueFromChar_def)

lemma length8_cases:
  assumes "length xs = 8"
  obtains a b c d e f g h where "xs = [a, b, c, d, e, f, g, h]"
  using assms by (auto simp add: length_Suc_conv numeral_eq_Suc)

lemma savedStateFrom_loop_8:
  "savedStateFrom_loop [r7, r6, r5, r4, r3, r2, r1, r0] 0 [i0, i1, i2, i3, i4, i5, i6, i7]
     = map toLogicValueFromChar [r0, r1, r2, r3, r4, r5, r6, r7]"
  by (simp add: savedStateFrom_loop.simps Let_def)

lemma contentRepr_8:
  "contentRepr [a, b, c, d, e, f, g, h]
     = (if a = Bit False \<and> b = Bit False \<and> c = Bit False \<and> d = Bit False
           \<and> e = Bit False \<and> f = Bit False \<and> g = Bit False \<and> h = Bit False
        then None
        else Some (map toLogicValueRepr [h, g, f, e, d, c, b, a]))"
proof -
  have u: "[0..<8] = [0, 1, 2, 3, 4, 5, 6, 7::nat]"
    by (simp add: upt_rec)
  show ?thesis
    unfolding contentRepr_def u by (simp add: Let_def)
qed

text \<open>
  C9. Saving the value of an InputByte and loading it again gives the same eight
  values. Eight false bits are saved with no \<^verbatim>\<open>val\<close> field, and a saved form with no
  \<^verbatim>\<open>val\<close> field, or none at all, loads as eight false bits.
\<close>

theorem InputByte_save_load:
  assumes "length value = 8"
  shows "savedStateFrom (Some (InputByte_toJSON value)) = value
    \<and> contentRepr (FixedArrayFill (Bit False) 8) = None
    \<and> savedStateFrom (Some \<lparr> val = None \<rparr>) = FixedArrayFill (Bit False) 8
    \<and> savedStateFrom None = FixedArrayFill (Bit False) 8"
proof -
  from assms obtain a b c d e f g h where v: "value = [a, b, c, d, e, f, g, h]"
    by (rule length8_cases)
  have fill: "FixedArrayFill (Bit False) 8
      = [Bit False, Bit False, Bit False, Bit False, Bit False, Bit False, Bit False, Bit False]"
    by (simp add: FixedArrayFill_def numeral_eq_Suc)
  have rt: "savedStateFrom (Some (InputByte_toJSON value)) = value"
    unfolding v InputByte_toJSON_def savedStateFrom_def fill contentRepr_8
    by (simp add: Let_def savedStateFrom_loop_8 toLogicValueFromChar_toLogicValueRepr)
  have em: "contentRepr (FixedArrayFill (Bit False) 8) = None"
    unfolding fill contentRepr_8 by simp
  show ?thesis
    using rt em by (simp add: savedStateFrom_def Let_def)
qed

theorem InputByte_save_load_witness:
  "length [Bit True, Bit False, Unknown, HighImpedance, Bit False, Bit False, Bit True, Bit False] = 8
   \<and> contentRepr [Bit True, Bit False, Unknown, HighImpedance, Bit False, Bit False, Bit True, Bit False]
       = Some ''0100Z?01''
   \<and> savedStateFrom (Some \<lparr> val = Some ''0100Z?01'' \<rparr>)
       = [Bit True, Bit False, Unknown, HighImpedance, Bit False, Bit False, Bit True, Bit False]"
proof -
  have h: "length [Bit True, Bit False, Unknown, HighImpedance, Bit False, Bit False, Bit True,
      Bit False] = 8"
    by simp
  have c: "contentRepr [Bit True, Bit False, Unknown, HighImpedance, Bit False, Bit False,
      Bit True, Bit False] = Some ''0100Z?01''"
    by (simp add: contentRepr_8)
  show ?thesis
    using h c InputByte_save_load [OF h] by (simp add: InputByte_toJSON_def)
qed

text \<open>A saved string shorter than eight characters fills the low bits only.\<close>

lemma savedStateFrom_short:
  "savedStateFrom (Some \<lparr> val = Some ''Z1'' \<rparr>)
     = [Bit True, HighImpedance, Bit False, Bit False, Bit False, Bit False, Bit False, Bit False]"
  by (simp add: savedStateFrom_def FixedArrayFill_def numeral_eq_Suc Let_def
      savedStateFrom_loop.simps [of _ 0] savedStateFrom_loop.simps [of _ "Suc 0"]
      savedStateFrom_loop.simps [of _ "Suc (Suc 0)"] toLogicValueFromChar_def)

subsection \<open>DecoderBCD4\<close>

lemma f_value_NodeOut_set_value: "f_value (fst (NodeOut_set_value now v n)) = v"
  by (simp add: NodeOut_set_value_def NodeBase_set_value_def Let_def)

lemma DecoderBCD4_outputs_5:
  "DecoderBCD4_doRecalcValue inputs = [v0, v1, v2, v3, v4] \<Longrightarrow>
     DecoderBCD4_outputs now inputs [o0, o1, o2, o3, o4] = [v4, v3, v2, v1, v0]"
  by (simp add: DecoderBCD4_outputs_def DecoderBCD4_propagateValue_def
      f_value_NodeOut_set_value)

lemma displayValuesFromArray_bits:
  "snd (displayValuesFromArray [Bit b0, Bit b1, Bit b2, Bit b3] False)
     = Some (of_bool b0 + 2 * of_bool b1 + 4 * of_bool b2 + 8 * of_bool b3)"
  by (cases b0; cases b1; cases b2; cases b3)
     (simp_all add: displayValuesFromArray_def parseInt2_def isUnknown_def isHighImpedance_def)

lemma length4_cases:
  assumes "length xs = 4"
  obtains a b c d where "xs = [a, b, c, d]"
  using assms by (auto simp add: length_Suc_conv numeral_eq_Suc)

lemma DecoderBCD4_doRecalcValue_bits:
  "DecoderBCD4_doRecalcValue [Bit b0, Bit b1, Bit b2, Bit b3]
     = (let n = of_bool b0 + 2 * of_bool b1 + 4 * of_bool b2 + 8 * of_bool b3 :: nat;
            m = n mod 10
        in [Bit (10 \<le> n), Bit (odd (m div 8)), Bit (odd (m div 4)), Bit (odd (m div 2)),
            Bit (odd m)])"
  by (cases b0; cases b1; cases b2; cases b3)
     (simp_all add: DecoderBCD4_doRecalcValue_def DecoderBCD4_INPUT_I_def inputValues_def
       displayValuesFromArray_def parseInt2_def isUnknown_def isHighImpedance_def Let_def)

lemma DecoderBCD4_doRecalcValue_unset:
  assumes "length inputs = 4" and "\<exists>v\<in>set inputs. v = Unknown \<or> v = HighImpedance"
  shows "DecoderBCD4_doRecalcValue inputs = [Unknown, Unknown, Unknown, Unknown, Unknown]"
proof -
  from assms(1) obtain a b c d where i: "inputs = [a, b, c, d]"
    by (rule length4_cases)
  from assms(2) have "list_ex (\<lambda>v. isUnknown v \<or> isHighImpedance v) [a, b, c, d]"
    unfolding i by (auto simp add: isUnknown_def isHighImpedance_def)
  then show ?thesis
    unfolding i
    by (simp add: DecoderBCD4_doRecalcValue_def DecoderBCD4_INPUT_I_def inputValues_def
        displayValuesFromArray_def Let_def FixedArrayFill_def numeral_eq_Suc)
qed

text \<open>
  C10. When the four inputs are booleans, they encode the number \<open>n\<close> with input 0 as
  the least significant bit, and after a recompute the output nodes hold: Z4 true exactly
  when \<open>n\<close> is at least 10, and Z3 to Z0 the binary digits of \<open>n mod 10\<close> (output \<open>i\<close>
  receives entry \<open>4 - i\<close> of the recomputed row). When one of the four inputs is Unknown
  or HighImpedance, all five outputs hold Unknown.
\<close>

theorem DecoderBCD4_decodes:
  "(let n = of_bool b0 + 2 * of_bool b1 + 4 * of_bool b2 + 8 * of_bool b3 :: nat;
        m = n mod 10
    in snd (displayValuesFromArray [Bit b0, Bit b1, Bit b2, Bit b3] False) = Some n
       \<and> DecoderBCD4_outputs now [Bit b0, Bit b1, Bit b2, Bit b3] [z0, z1, z2, z3, z4]
           = [Bit (odd m), Bit (odd (m div 2)), Bit (odd (m div 4)), Bit (odd (m div 8)),
              Bit (10 \<le> n)])
   \<and> (length inputs = 4 \<and> (\<exists>v\<in>set inputs. v = Unknown \<or> v = HighImpedance)
      \<longrightarrow> DecoderBCD4_outputs now inputs [z0, z1, z2, z3, z4]
            = [Unknown, Unknown, Unknown, Unknown, Unknown])"
proof (intro conjI impI)
  show "let n = of_bool b0 + 2 * of_bool b1 + 4 * of_bool b2 + 8 * of_bool b3 :: nat;
        m = n mod 10
    in snd (displayValuesFromArray [Bit b0, Bit b1, Bit b2, Bit b3] False) = Some n
       \<and> DecoderBCD4_outputs now [Bit b0, Bit b1, Bit b2, Bit b3] [z0, z1, z2, z3, z4]
           = [Bit (odd m), Bit (odd (m div 2)), Bit (odd (m div 4)), Bit (odd (m div 8)),
              Bit (10 \<le> n)]"
    unfolding Let_def displayValuesFromArray_bits
    using DecoderBCD4_outputs_5 [OF DecoderBCD4_doRecalcValue_bits [unfolded Let_def]]
    by (simp only: simp_thms)
next
  assume "length inputs = 4 \<and> (\<exists>v\<in>set inputs. v = Unknown \<or> v = HighImpedance)"
  then have "DecoderBCD4_doRecalcValue inputs = [Unknown, Unknown, Unknown, Unknown, Unknown]"
    using DecoderBCD4_doRecalcValue_unset by blast
  then show "DecoderBCD4_outputs now inputs [z0, z1, z2, z3, z4]
            = [Unknown, Unknown, Unknown, Unknown, Unknown]"
    by (rule DecoderBCD4_outputs_5)
qed

theorem DecoderBCD4_decodes_witness:
  "length [Bit True, HighImpedance, Bit False, Bit True] = 4
   \<and> (\<exists>v\<in>set [Bit True, HighImpedance, Bit False, Bit True]. v = Unknown \<or> v = HighImpedance)
   \<and> DecoderBCD4_outputs 0 [Bit True, HighImpedance, Bit False, Bit True]
        (replicate 5 (NodeOut_constructor \<lparr> spec_id = 0, force = None, initialValue = None \<rparr>))
       = [Unknown, Unknown, Unknown, Unknown, Unknown]
   \<and> snd (displayValuesFromArray [Bit True, Bit False, Bit True, Bit True] False) = Some 13
   \<and> DecoderBCD4_outputs 0 [Bit True, Bit False, Bit True, Bit True]
        (replicate 5 (NodeOut_constructor \<lparr> spec_id = 0, force = None, initialValue = None \<rparr>))
       = [Bit True, Bit True, Bit False, Bit False, Bit True]"
proof -
  have r: "replicate 5 x = [x, x, x, x, x]" for x :: NodeOut
    by (simp add: numeral_eq_Suc)
  show ?thesis
    unfolding r
    using DecoderBCD4_decodes [of True False True True 0 _ _ _ _ _
        "[Bit True, HighImpedance, Bit False, Bit True]"]
    by (simp add: Let_def)
qed

end
